theory Spec2Isabelle
  imports Complex_Main "HOL-Library.Word"
begin

section \<open>Audio encoding: Float32 samples to 16-bit PCM\<close>

text \<open>
  \<^verbatim>\<open>convertFloat32ToInt16\<close> of \<^verbatim>\<open>utils/audioUtils.js\<close> and the loop inside
  \<^verbatim>\<open>onaudioprocess\<close> of \<^verbatim>\<open>hooks/useDeepgram.js\<close>.

  A JavaScript number is a finite value, an infinity or NaN. The finite values are
  modelled as reals. For the operations of the encoder this is exact on every
  element a \<^verbatim>\<open>Float32Array\<close> can hold: such an element has a 24-bit significand,
  clamping returns an operand, the product with \<open>0x8000\<close> is a scaling by a power of
  two and the product with \<open>0x7FFF\<close> (15 bits) needs at most 39 bits, so a double
  holds each of them without rounding.
\<close>

datatype jsnum = Fin real | PosInf | NegInf | NaN

text \<open>\<^verbatim>\<open>Math.min(a, b)\<close> and \<^verbatim>\<open>Math.max(a, b)\<close>: NaN if either argument is NaN.\<close>

fun Math_min :: "jsnum \<Rightarrow> jsnum \<Rightarrow> jsnum" where
  "Math_min NaN _ = NaN"
| "Math_min _ NaN = NaN"
| "Math_min NegInf _ = NegInf"
| "Math_min _ NegInf = NegInf"
| "Math_min PosInf b = b"
| "Math_min a PosInf = a"
| "Math_min (Fin a) (Fin b) = Fin (min a b)"

fun Math_max :: "jsnum \<Rightarrow> jsnum \<Rightarrow> jsnum" where
  "Math_max NaN _ = NaN"
| "Math_max _ NaN = NaN"
| "Math_max PosInf _ = PosInf"
| "Math_max _ PosInf = PosInf"
| "Math_max NegInf b = b"
| "Math_max a NegInf = a"
| "Math_max (Fin a) (Fin b) = Fin (max a b)"

text \<open>\<^verbatim>\<open>s < 0\<close>: false on NaN.\<close>

fun lt_zero :: "jsnum \<Rightarrow> bool" where
  "lt_zero (Fin a) = (a < 0)"
| "lt_zero NegInf = True"
| "lt_zero PosInf = False"
| "lt_zero NaN = False"

text \<open>\<^verbatim>\<open>s * c\<close> for a positive finite constant \<open>c\<close> (here \<open>0x8000\<close> and \<open>0x7FFF\<close>).\<close>

fun times_const :: "jsnum \<Rightarrow> real \<Rightarrow> jsnum" where
  "times_const (Fin a) c = Fin (a * c)"
| "times_const PosInf c = PosInf"
| "times_const NegInf c = NegInf"
| "times_const NaN c = NaN"

text \<open>
  Storing a number into an \<^verbatim>\<open>Int16Array\<close> element applies ToInt16: NaN and the
  infinities become 0, a finite value is truncated towards zero and then reduced
  modulo \<open>2^16\<close> into the signed range, which is what \<^term>\<open>sint\<close> of a
  16-bit word reads.
\<close>

definition trunc_real :: "real \<Rightarrow> int" where
  "trunc_real x = (if x < 0 then \<lceil>x\<rceil> else \<lfloor>x\<rfloor>)"

fun ToInt16 :: "jsnum \<Rightarrow> int" where
  "ToInt16 (Fin x) = sint (word_of_int (trunc_real x) :: 16 word)"
| "ToInt16 PosInf = 0"
| "ToInt16 NegInf = 0"
| "ToInt16 NaN = 0"

text \<open>The body of the loop: clamp, then scale by the sign.\<close>

definition clamp_sample :: "jsnum \<Rightarrow> jsnum" where
  "clamp_sample x = Math_max (Fin (-1)) (Math_min (Fin 1) x)"

definition scale_sample :: "jsnum \<Rightarrow> jsnum" where
  "scale_sample s = (if lt_zero s then times_const s 32768 else times_const s 32767)"

definition encode_sample :: "jsnum \<Rightarrow> int" where
  "encode_sample x = ToInt16 (scale_sample (clamp_sample x))"

text \<open>
  The \<^verbatim>\<open>for\<close> loop over the indices of the buffer, writing \<^verbatim>\<open>int16Buffer[i]\<close>.
  The output array is created with the length of the input and filled with zeros.
\<close>

function convert_loop :: "jsnum list \<Rightarrow> nat \<Rightarrow> int list \<Rightarrow> int list" where
  "convert_loop buffer i int16Buffer =
     (if i < length buffer
      then convert_loop buffer (i + 1) (int16Buffer[i := encode_sample (buffer ! i)])
      else int16Buffer)"
  by pat_completeness auto
termination
  by (relation "measure (\<lambda>(buffer, i, out). length buffer - i)") auto

declare convert_loop.simps [simp del]

text \<open>
  The argument of \<^verbatim>\<open>convertFloat32ToInt16\<close>: a \<^verbatim>\<open>Float32Array\<close>, or anything else
  (\<^verbatim>\<open>null\<close>, \<^verbatim>\<open>undefined\<close>, a plain array, ...), on which the function throws.
\<close>

datatype audio_arg = Float32Array "jsnum list" | NotFloat32Array

datatype audio_error = InvalidInput

fun convertFloat32ToInt16 :: "audio_arg \<Rightarrow> audio_error + int list" where
  "convertFloat32ToInt16 NotFloat32Array = Inl InvalidInput"
| "convertFloat32ToInt16 (Float32Array buffer) =
     Inr (convert_loop buffer 0 (replicate (length buffer) 0))"

text \<open>
  The same conversion written inline in \<^verbatim>\<open>startAudioStreaming\<close>
  (\<^verbatim>\<open>processor.current.onaudioprocess\<close>): the frame sent on the socket.
\<close>

function stream_loop :: "jsnum list \<Rightarrow> nat \<Rightarrow> int list \<Rightarrow> int list" where
  "stream_loop inputData i output =
     (if i < length inputData
      then (let s = Math_max (Fin (-1)) (Math_min (Fin 1) (inputData ! i))
            in stream_loop inputData (i + 1)
                 (output[i := ToInt16 (if lt_zero s then times_const s 32768
                                       else times_const s 32767)]))
      else output)"
  by pat_completeness auto
termination
  by (relation "measure (\<lambda>(inputData, i, out). length inputData - i)") auto

declare stream_loop.simps [simp del]

definition onaudioprocess :: "jsnum list \<Rightarrow> int list" where
  "onaudioprocess inputData = stream_loop inputData 0 (replicate (length inputData) 0)"

text \<open>
  Following the specification's words: clamping a sample to the interval \<open>[-1, 1]\<close>.
  The encoder is compared with it in the properties of the encoder.
\<close>

definition clamp_unit :: "real \<Rightarrow> real" where
  "clamp_unit x = (if x < - 1 then - 1 else if 1 < x then 1 else x)"

section \<open>Strings, timers and effects shared by the hooks\<close>

text \<open>
  A JavaScript string is a sequence of UTF-16 code units; \<^verbatim>\<open>length\<close> counts them.
  \<open>ustr\<close> writes an ASCII literal as such a sequence.
\<close>

type_synonym js_string = "nat list"

definition ustr :: "string \<Rightarrow> js_string" where
  "ustr s = map of_char s"

text \<open>
  What a handler does to the outside world, in the order it does it: timers it
  starts (with the delay in milliseconds), live timers it cancels (\<^verbatim>\<open>clearTimeout\<close> on
  a timer that has fired does nothing and is not recorded), sockets it opens or
  closes, HTTP requests it posts (with the text of the body), requests it aborts.
\<close>

datatype effect =
    SetTimeout nat
  | ClearTimeout
  | NewWebSocket
  | SocketClose nat
  | HttpPost js_string
  | Abort

definition delays :: "effect list \<Rightarrow> nat list" where
  "delays es = concat (map (\<lambda>e. case e of SetTimeout d \<Rightarrow> [d] | _ \<Rightarrow> []) es)"

definition posts :: "effect list \<Rightarrow> js_string list" where
  "posts es = concat (map (\<lambda>e. case e of HttpPost t \<Rightarrow> [t] | _ \<Rightarrow> []) es)"

section \<open>The transcription connection (\<^verbatim>\<open>hooks/useDeepgram.js\<close>)\<close>

text \<open>
  The refs and state of the hook that the connection handlers read or write.
  A timer started by \<^verbatim>\<open>setTimeout\<close> is live until it fires or is cleared;
  \<open>timers\<close> lists the live reconnect timers as (id, delay) in the order they were
  started, and \<open>reconnectTimeout\<close> is the ref, holding the id of the timer started
  last (it keeps the id after that timer has fired; ids are positive, as those of
  browsers are). \<open>conn_error\<close> is the state \<^verbatim>\<open>error\<close> of this hook, \<open>ws\<close> says that
  \<^verbatim>\<open>ws.current\<close> holds a socket, \<open>streaming\<close> that the audio processor of
  \<^verbatim>\<open>startAudioStreaming\<close> is attached. Transcript messages touch none of these
  fields and are left out.
\<close>

record conn =
  isConnected :: bool
  conn_error :: "js_string option"
  ws :: bool
  streaming :: bool
  timers :: "(nat \<times> nat) list"
  nextTimerId :: nat
  reconnectTimeout :: "nat option"
  reconnectAttempts :: nat

datatype conn_event =
    Connect
  | WsOpen
  | WsError
  | WsClose nat
  | TimerFire nat
  | Disconnect

text \<open>
  \<^verbatim>\<open>connect(audioStream)\<close>. \<open>apiKey\<close> says whether the hook was given a key; without one
  the function throws before it opens a socket and its own \<^verbatim>\<open>catch\<close> reports it.
\<close>

definition connect :: "bool \<Rightarrow> conn \<Rightarrow> effect list \<times> conn" where
  "connect apiKey s =
     (let s = s\<lparr>conn_error := None\<rparr> in
      if \<not> apiKey
      then ([], s\<lparr>conn_error := Some (ustr ''Deepgram API key is required''),
                    isConnected := False\<rparr>)
      else ([NewWebSocket], s\<lparr>ws := True\<rparr>))"

definition stopAudioStreaming :: "conn \<Rightarrow> conn" where
  "stopAudioStreaming s = s\<lparr>streaming := False\<rparr>"

text \<open>\<^verbatim>\<open>handleReconnect\<close>: the counter is incremented before the delay is computed.\<close>

definition handleReconnect :: "conn \<Rightarrow> effect list \<times> conn" where
  "handleReconnect s =
     (let s = s\<lparr>reconnectAttempts := reconnectAttempts s + 1\<rparr>;
          delay = min (1000 * 2 ^ reconnectAttempts s) 10000;
          s = s\<lparr>conn_error := Some (ustr ''Connection lost. Reconnecting...'')\<rparr>;
          tid = nextTimerId s
      in ([SetTimeout delay],
          s\<lparr>reconnectTimeout := Some tid, timers := timers s @ [(tid, delay)],
            nextTimerId := tid + 1\<rparr>))"

definition onopen :: "conn \<Rightarrow> effect list \<times> conn" where
  "onopen s = ([], s\<lparr>isConnected := True, conn_error := None, reconnectAttempts := 0,
                         streaming := True\<rparr>)"

definition onerror :: "conn \<Rightarrow> effect list \<times> conn" where
  "onerror s = ([], s\<lparr>conn_error := Some (ustr ''Connection error occurred'')\<rparr>)"

definition onclose :: "nat \<Rightarrow> conn \<Rightarrow> effect list \<times> conn" where
  "onclose code s =
     (let s = stopAudioStreaming (s\<lparr>isConnected := False\<rparr>) in
      if code \<noteq> 1000 \<and> reconnectAttempts s < 3 then handleReconnect s else ([], s))"

definition disconnect :: "conn \<Rightarrow> effect list \<times> conn" where
  "disconnect s =
     (let (e1, s) = (case reconnectTimeout s of
                       None \<Rightarrow> ([], s)
                     | Some tid \<Rightarrow>
                         (if tid \<in> set (map fst (timers s)) then [ClearTimeout] else [],
                          s\<lparr>timers := filter (\<lambda>(i, d). i \<noteq> tid) (timers s),
                            reconnectTimeout := None\<rparr>));
          s = stopAudioStreaming s;
          (e2, s) = (if ws s then ([SocketClose 1000], s\<lparr>ws := False\<rparr>) else ([], s))
      in (e1 @ e2, s\<lparr>isConnected := False, conn_error := None, reconnectAttempts := 0\<rparr>))"

text \<open>
  One event of the hook. \<open>TimerFire k\<close> is the \<open>k\<close>-th live reconnect timer firing:
  it calls \<^verbatim>\<open>connect\<close> again; when there is no such timer nothing happens.
\<close>

fun conn_step :: "bool \<Rightarrow> conn \<Rightarrow> conn_event \<Rightarrow> effect list \<times> conn" where
  "conn_step apiKey s Connect = connect apiKey s"
| "conn_step apiKey s WsOpen = onopen s"
| "conn_step apiKey s WsError = onerror s"
| "conn_step apiKey s (WsClose code) = onclose code s"
| "conn_step apiKey s (TimerFire k) =
     (if k < length (timers s)
      then connect apiKey (s\<lparr>timers := take k (timers s) @ drop (k + 1) (timers s)\<rparr>)
      else ([], s))"
| "conn_step apiKey s Disconnect = disconnect s"

fun conn_run :: "bool \<Rightarrow> conn \<Rightarrow> conn_event list \<Rightarrow> effect list \<times> conn" where
  "conn_run apiKey s [] = ([], s)"
| "conn_run apiKey s (e # es) =
     (let (out1, s1) = conn_step apiKey s e;
          (out2, s2) = conn_run apiKey s1 es
      in (out1 @ out2, s2))"

text \<open>
  Consecutive closes of the connection with the given close codes: after each close the
  oldest live reconnect timer fires (the one this close has started, when no other
  timer is live), and the socket that opens then closes in turn without ever having
  reached \<^verbatim>\<open>onopen\<close>.
\<close>

definition closes_in_a_row :: "nat list \<Rightarrow> conn_event list" where
  "closes_in_a_row codes = concat (map (\<lambda>c. [WsClose c, TimerFire 0]) codes)"

text \<open>The state of the hook when it mounts.\<close>

definition conn_init :: conn where
  "conn_init = \<lparr>isConnected = False, conn_error = None, ws = False, streaming = False,
                 timers = [], nextTimerId = 1, reconnectTimeout = None,
                 reconnectAttempts = 0\<rparr>"

text \<open>
  Following the specification's words: the delay \<open>min(1000 \<times> 2^attempt, 10000)\<close> in
  milliseconds.
\<close>

definition backoff :: "nat \<Rightarrow> nat" where
  "backoff attempt = min (1000 * 2 ^ attempt) 10000"

section \<open>The sentiment coordinator (\<^verbatim>\<open>hooks/useSentimentProcessor.js\<close>)\<close>

subsection \<open>Configuration\<close>

definition DEBOUNCE_DELAY :: nat where "DEBOUNCE_DELAY = 500"
definition MIN_TEXT_LENGTH :: nat where "MIN_TEXT_LENGTH = 3"
definition MAX_RETRIES :: nat where "MAX_RETRIES = 3"
definition RETRY_DELAY :: nat where "RETRY_DELAY = 1000"

subsection \<open>Texts\<close>

text \<open>
  \<^verbatim>\<open>String.prototype.trim\<close> removes the white space and line terminator code units of
  ECMAScript from both ends.
\<close>

definition is_white_space :: "nat \<Rightarrow> bool" where
  "is_white_space c =
     (c \<in> set [9, 10, 11, 12, 13, 32, 160, 5760, 8232, 8233, 8239, 8287, 12288, 65279]
      \<or> (8192 \<le> c \<and> c \<le> 8202))"

definition trim :: "js_string \<Rightarrow> js_string" where
  "trim t = rev (dropWhile is_white_space (rev (dropWhile is_white_space t)))"

subsection \<open>Responses and errors of the HTTP client\<close>

text \<open>
  The sentiment object of the endpoint, with the shape the endpoint documents: a
  numeric score, a type and an intensity. The score is a JavaScript number; it is
  modelled as a real, so the arithmetic on scores is the exact one, of which the
  double arithmetic of the code is the rounding.
\<close>

record sentiment_result =
  score :: real
  type :: js_string
  intensity :: js_string

text \<open>
  \<^verbatim>\<open>response.data\<close>, seen through the tests the code applies to it.
  \<^item> \<open>Falsy\<close>: \<^verbatim>\<open>response.data\<close> tests false (\<^verbatim>\<open>null\<close>, \<^verbatim>\<open>false\<close>, \<^verbatim>\<open>0\<close>, the empty
    string, or no body).
  \<^item> \<open>Truthy d\<close>: any other body. \<open>sentiment_prop d = Some x\<close> when
    \<^verbatim>\<open>data.sentiment && typeof data.sentiment === 'object'\<close> holds, \<open>x\<close> being that
    object, and \<open>None\<close> when the test fails (the property is absent, \<^verbatim>\<open>null\<close> or not an
    object). \<open>keywords_prop d = Some ks\<close> when
    \<^verbatim>\<open>data.keywords && Array.isArray(data.keywords)\<close> holds, \<open>ks\<close> being the array, and
    \<open>None\<close> when it fails. An array is truthy in JavaScript also when it is empty, so
    \<^verbatim>\<open>keywords: []\<close> is \<open>Some []\<close>. The body \<^verbatim>\<open>{}\<close> is \<open>Truthy\<close> with both \<open>None\<close>.
\<close>

record data =
  sentiment_prop :: "sentiment_result option"
  keywords_prop :: "js_string list option"

datatype body = Falsy | Truthy data

text \<open>
  The error an HTTP call rejects with: \<^verbatim>\<open>err.name\<close>, \<^verbatim>\<open>err.code\<close>, \<^verbatim>\<open>err.response\<close> (its
  status and \<^verbatim>\<open>data?.message\<close>), whether \<^verbatim>\<open>err.request\<close> is set, and \<^verbatim>\<open>err.message\<close>.
\<close>

record error_response =
  status :: nat
  data_message :: "js_string option"

record http_error =
  err_name :: js_string
  err_code :: "js_string option"
  err_response :: "error_response option"
  err_request :: bool
  err_message :: js_string

datatype attempt = Resolved body | Rejected http_error

text \<open>\<^verbatim>\<open>a || b\<close> on an optional string: \<open>b\<close> when \<open>a\<close> is undefined or empty.\<close>

fun or_default :: "js_string option \<Rightarrow> js_string \<Rightarrow> js_string" where
  "or_default None d = d"
| "or_default (Some m) d = (if m = [] then d else m)"

definition is_abort :: "http_error \<Rightarrow> bool" where
  "is_abort err = (err_name err = ustr ''AbortError'' \<or> err_code err = Some (ustr ''ECONNABORTED''))"

text \<open>The message the \<^verbatim>\<open>catch\<close> block of the timer callback computes.\<close>

definition errorMessage :: "http_error \<Rightarrow> js_string" where
  "errorMessage err =
     (let errorMessage = ustr ''Failed to analyze sentiment'' in
      case err_response err of
        Some r \<Rightarrow>
          (if status r = 400 then ustr ''Invalid text format''
           else if status r = 500 then ustr ''Sentiment analysis service unavailable''
           else if status r = 503 then ustr ''Service temporarily unavailable''
           else or_default (data_message r) errorMessage)
      | None \<Rightarrow>
          (if err_request err
           then ustr ''Cannot connect to backend. Please ensure the server is running.''
           else or_default (Some (err_message err)) errorMessage))"

subsection \<open>The retry loop\<close>

text \<open>
  How the \<^verbatim>\<open>try\<close> block around the loop ends: with a response, with no response
  (the loop was left by \<^verbatim>\<open>break\<close>), or by throwing.
\<close>

datatype outcome = Responded body | NoResponse | Thrown http_error

text \<open>
  \<^verbatim>\<open>while (attempt < MAX_RETRIES && !response)\<close>. \<open>post k\<close> is how the call of
  \<^verbatim>\<open>axios.post\<close> made while \<^verbatim>\<open>attempt\<close> is \<open>k\<close> settles; the loop does not touch the
  state of the hook. The result is the trace of posts and waits, and the outcome.
\<close>

function retry_loop ::
  "js_string \<Rightarrow> (nat \<Rightarrow> attempt) \<Rightarrow> nat \<Rightarrow> body option \<Rightarrow> effect list \<times> outcome" where
  "retry_loop text post attempt response =
     (if attempt < MAX_RETRIES \<and> response = None
      then (case post attempt of
              Resolved b \<Rightarrow>
                (let (es, r) = retry_loop text post attempt (Some b)
                 in (HttpPost text # es, r))
            | Rejected err \<Rightarrow>
                (let currentAttempt = attempt; attempt = attempt + 1 in
                 if is_abort err then ([HttpPost text], NoResponse)
                 else if currentAttempt < MAX_RETRIES - 1
                 then (let (es, r) = retry_loop text post attempt response
                       in (HttpPost text # SetTimeout (RETRY_DELAY * (currentAttempt + 1)) # es, r))
                 else ([HttpPost text], Thrown err)))
      else ([], case response of None \<Rightarrow> NoResponse | Some b \<Rightarrow> Responded b))"
  by pat_completeness auto
termination
  by (relation "measure (\<lambda>(text, post, attempt, response).
        2 * (MAX_RETRIES - attempt) + (if response = None then 1 else 0))")
     (auto simp: MAX_RETRIES_def)

declare retry_loop.simps [simp del]

text \<open>
  How one HTTP call can fail, by the test of the \<^verbatim>\<open>catch\<close> block inside the loop:
  \<open>aborted\<close> when the call rejects and \<^verbatim>\<open>err.name === 'AbortError' ||
  err.code === 'ECONNABORTED'\<close> holds, \<open>transient\<close> when it rejects and the test fails.
\<close>

definition transient :: "attempt \<Rightarrow> bool" where
  "transient a = (case a of Rejected err \<Rightarrow> \<not> is_abort err | Resolved _ \<Rightarrow> False)"

definition aborted :: "attempt \<Rightarrow> bool" where
  "aborted a = (case a of Rejected err \<Rightarrow> is_abort err | Resolved _ \<Rightarrow> False)"

subsection \<open>State and handlers\<close>

text \<open>
  The state and refs of the hook (\<open>keywords'\<close> is the state \<^verbatim>\<open>keywords\<close>). A timer is
  live until it fires or is cleared: \<open>debounceTimer\<close> is the live debounce timer with the text its callback closes over
  (\<open>None\<close> once it has fired, although the ref keeps the dead id), \<open>spacingTimers\<close> are
  the live 100 ms timers started by the \<^verbatim>\<open>finally\<close> block, each with its
  \<^verbatim>\<open>nextText\<close>. \<open>inFlight\<close> is the text of the timer callback that holds the lock,
  from the moment it takes the lock to its \<^verbatim>\<open>finally\<close> block. \<open>abortController\<close> says
  whether the ref holds a controller.
\<close>

record coord =
  sentiment :: "sentiment_result option"
  keywords' :: "js_string list"
  isProcessing :: bool
  error :: "js_string option"
  debounceTimer :: "js_string option"
  abortController :: bool
  lastProcessedText :: js_string
  requestQueue :: "js_string list"
  processingLock :: bool
  inFlight :: "js_string option"
  spacingTimers :: "js_string list"

definition coord_init :: coord where
  "coord_init = \<lparr>sentiment = None, keywords' = [], isProcessing = False, error = None,
                  debounceTimer = None, abortController = False, lastProcessedText = [],
                  requestQueue = [], processingLock = False, inFlight = None,
                  spacingTimers = []\<rparr>"

text \<open>
  \<^verbatim>\<open>processText(text, isFinal)\<close> up to the start of the debounce timer. \<open>ClearTimeout\<close>
  is emitted when a live timer is cancelled.
\<close>

definition processText :: "coord \<Rightarrow> js_string \<Rightarrow> bool \<Rightarrow> effect list \<times> coord" where
  "processText s text isFinal =
     (if \<not> isFinal then ([], s)
      else if text = [] \<or> length (trim text) < MIN_TEXT_LENGTH then ([], s)
      else if text = lastProcessedText s then ([], s)
      else ((case debounceTimer s of None \<Rightarrow> [] | Some _ \<Rightarrow> [ClearTimeout])
              @ [SetTimeout DEBOUNCE_DELAY],
            s\<lparr>debounceTimer := Some text\<rparr>))"

text \<open>
  The timer callback from its start to its first \<^verbatim>\<open>await\<close>: either it queues the
  text and returns, or it takes the lock and makes the first HTTP call.
\<close>

definition debounce_fire :: "coord \<Rightarrow> effect list \<times> coord" where
  "debounce_fire s =
     (case debounceTimer s of
        None \<Rightarrow> ([], s)
      | Some text \<Rightarrow>
          (let s = s\<lparr>debounceTimer := None\<rparr> in
           if processingLock s
           then ([], s\<lparr>requestQueue := requestQueue s @ [text]\<rparr>)
           else (let s = s\<lparr>processingLock := True, isProcessing := True, error := None\<rparr>;
                     es = (if abortController s then [Abort] else []);
                     s = s\<lparr>abortController := True, inFlight := Some text\<rparr>
                 in (es @ [HttpPost text], s))))"

text \<open>\<^verbatim>\<open>if (response && response.data) { ... }\<close>: the resolved response object is truthy.\<close>

definition on_response :: "coord \<Rightarrow> js_string \<Rightarrow> body \<Rightarrow> coord" where
  "on_response s text b =
     (case b of
        Falsy \<Rightarrow> s
      | Truthy d \<Rightarrow>
          (let s = (case sentiment_prop d of
                      Some incoming \<Rightarrow>
                        s\<lparr>sentiment := Some (case sentiment s of
                             None \<Rightarrow> incoming
                           | Some prevSentiment \<Rightarrow>
                               \<lparr>score = (score prevSentiment * 0.3) + (score incoming * 0.7),
                                type = type incoming,
                                intensity = intensity incoming\<rparr>)\<rparr>
                    | None \<Rightarrow> s);
               s = (case keywords_prop d of
                      Some ks \<Rightarrow> s\<lparr>keywords' := ks\<rparr>
                    | None \<Rightarrow> s)
           in s\<lparr>lastProcessedText := text\<rparr>))"

definition on_finally :: "coord \<Rightarrow> effect list \<times> coord" where
  "on_finally s =
     (let s = s\<lparr>isProcessing := False, processingLock := False, inFlight := None\<rparr> in
      case requestQueue s of
        [] \<Rightarrow> ([], s)
      | nextText # queue \<Rightarrow>
          ([SetTimeout 100],
           s\<lparr>requestQueue := queue, spacingTimers := spacingTimers s @ [nextText]\<rparr>))"

text \<open>
  What follows the loop inside the \<^verbatim>\<open>try\<close> block, and the \<^verbatim>\<open>catch\<close> block: a response
  is handled, a \<^verbatim>\<open>break\<close> out of the loop leaves the state as it is, an error thrown
  by the loop sets the error message.
\<close>

definition on_outcome :: "coord \<Rightarrow> js_string \<Rightarrow> outcome \<Rightarrow> coord" where
  "on_outcome s text out =
     (case out of
        Responded b \<Rightarrow> on_response s text b
      | NoResponse \<Rightarrow> s
      | Thrown err \<Rightarrow> s\<lparr>error := Some (errorMessage err)\<rparr>)"

text \<open>
  The rest of the timer callback that holds the lock: the retry loop (whose first
  post was made when the callback started), the handling of its outcome and the
  \<^verbatim>\<open>finally\<close> block.
\<close>

definition request_done :: "coord \<Rightarrow> (nat \<Rightarrow> attempt) \<Rightarrow> effect list \<times> coord" where
  "request_done s post =
     (case inFlight s of
        None \<Rightarrow> ([], s)
      | Some text \<Rightarrow>
          (let (trace, out) = retry_loop text post 0 None;
               s = on_outcome s text out;
               (es, s) = on_finally s
           in (tl trace @ es, s)))"

definition clearData :: "coord \<Rightarrow> coord" where
  "clearData s = s\<lparr>sentiment := None, keywords' := [], error := None,
                    lastProcessedText := [], requestQueue := []\<rparr>"

text \<open>
  The events of the hook: a call of \<^verbatim>\<open>processText\<close>, the live debounce timer firing,
  the running request coming to its end (with the way its HTTP calls settle), the
  \<open>k\<close>-th live spacing timer firing (it calls \<^verbatim>\<open>processText(nextText, true)\<close>), and a
  call of \<^verbatim>\<open>clearData\<close>.
\<close>

datatype event =
    Submit js_string bool
  | DebounceFire
  | RequestDone "nat \<Rightarrow> attempt"
  | SpacingFire nat
  | ClearData

fun step :: "coord \<Rightarrow> event \<Rightarrow> effect list \<times> coord" where
  "step s (Submit text isFinal) = processText s text isFinal"
| "step s DebounceFire = debounce_fire s"
| "step s (RequestDone post) = request_done s post"
| "step s (SpacingFire k) =
     (if k < length (spacingTimers s)
      then processText
             (s\<lparr>spacingTimers := take k (spacingTimers s) @ drop (k + 1) (spacingTimers s)\<rparr>)
             (spacingTimers s ! k) True
      else ([], s))"
| "step s ClearData = ([], clearData s)"

fun run :: "coord \<Rightarrow> event list \<Rightarrow> effect list \<times> coord" where
  "run s [] = ([], s)"
| "run s (e # es) =
     (let (out1, s1) = step s e;
          (out2, s2) = run s1 es
      in (out1 @ out2, s2))"

text \<open>
  The reachable states are those of the form \<open>snd (run coord_init evs)\<close>. In all of
  them the lock is held exactly while a request is in flight, and the error slot is
  empty while one is: the invariant below.
\<close>

definition lock_inv :: "coord \<Rightarrow> bool" where
  "lock_inv s = ((processingLock s \<longleftrightarrow> inFlight s \<noteq> None)
                 \<and> (inFlight s \<noteq> None \<longrightarrow> error s = None))"

subsection \<open>The keyword log of the application (\<^verbatim>\<open>App.jsx\<close>)\<close>

text \<open>
  The effect of \<^verbatim>\<open>App\<close> that runs when the hook's \<^verbatim>\<open>keywords\<close> changes: a non-empty
  array is appended as a batch (ids from the clock, 150 ms of stagger per item) and
  the last 20 items are kept; an empty array is skipped. \<open>now index\<close> is what
  \<^verbatim>\<open>Date.now()\<close> returns when the item at \<open>index\<close> is mapped.
\<close>

record keyword_item =
  kw_text :: js_string
  kw_id :: nat
  kw_delay :: nat

definition keywords_effect ::
  "(nat \<Rightarrow> nat) \<Rightarrow> js_string list \<Rightarrow> keyword_item list \<Rightarrow> keyword_item list" where
  "keywords_effect now kws currentKeywords =
     (if 0 < length kws
      then (let newKeywords = map (\<lambda>(index, keyword).
                    \<lparr>kw_text = keyword, kw_id = now index + index, kw_delay = index * 150\<rparr>)
                  (enumerate 0 kws);
                xs = currentKeywords @ newKeywords
            in drop (length xs - 20) xs)
      else currentKeywords)"

subsection \<open>Texts that pass the filters of \<^verbatim>\<open>processText\<close>\<close>


subsection \<open>Sample responses, errors and states\<close>

text \<open>
  The response of the specification's scenario, a neutral one whose \<^verbatim>\<open>keywords\<close> is the
  empty array, the body \<^verbatim>\<open>{}\<close>, and a body with keywords but no sentiment.
\<close>

definition positive_body :: body where
  "positive_body = Truthy \<lparr>sentiment_prop =
       Some \<lparr>score = 0.9, type = ustr ''positive'', intensity = ustr ''strong''\<rparr>,
     keywords_prop = Some [ustr ''love'', ustr ''amazing'']\<rparr>"

definition neutral_body :: body where
  "neutral_body = Truthy \<lparr>sentiment_prop =
       Some \<lparr>score = 0.5, type = ustr ''neutral'', intensity = ustr ''moderate''\<rparr>,
     keywords_prop = Some []\<rparr>"

definition empty_object_body :: body where
  "empty_object_body = Truthy \<lparr>sentiment_prop = None, keywords_prop = None\<rparr>"

definition keywords_only_body :: body where
  "keywords_only_body = Truthy \<lparr>sentiment_prop = None, keywords_prop = Some [ustr ''late'']\<rparr>"

text \<open>
  A network failure, the client's timeout (code \<^verbatim>\<open>ECONNABORTED\<close>) and a response with
  status 500.
\<close>

definition network_error :: http_error where
  "network_error = \<lparr>err_name = ustr ''AxiosError'', err_code = Some (ustr ''ERR_NETWORK''),
     err_response = None, err_request = True, err_message = ustr ''Network Error''\<rparr>"

definition timeout_error :: http_error where
  "timeout_error = \<lparr>err_name = ustr ''AxiosError'', err_code = Some (ustr ''ECONNABORTED''),
     err_response = None, err_request = True,
     err_message = ustr ''timeout of 10000ms exceeded''\<rparr>"


text \<open>
  What the HTTP client rejects with when the \<^verbatim>\<open>AbortController\<close> whose signal the call
  was given is aborted: an error named \<^verbatim>\<open>CanceledError\<close> with the code
  \<^verbatim>\<open>ERR_CANCELED\<close>. This is the only cancellation the hook can ask for.
\<close>

definition canceled_error :: http_error where
  "canceled_error = \<lparr>err_name = ustr ''CanceledError'', err_code = Some (ustr ''ERR_CANCELED''),
     err_response = None, err_request = False, err_message = ustr ''canceled''\<rparr>"

text \<open>
  HTTP calls of which the first fails on the network and the later ones time out;
  and calls of which the first two fail on the network and the later ones time out.
\<close>

definition fail_then_timeout :: "nat \<Rightarrow> attempt" where
  "fail_then_timeout k = (if k = 0 then Rejected network_error else Rejected timeout_error)"


text \<open>
  Reachable states of the hook: with the first request in flight; with a second
  request in flight after the scenario's response to the first; with one text
  queued and another one waiting for its debounce timer while the first request is
  still in flight.
\<close>

definition first_in_flight :: coord where
  "first_in_flight = snd (run coord_init [Submit (ustr ''I love this!'') True, DebounceFire])"

definition second_in_flight :: coord where
  "second_in_flight = snd (run coord_init
     [Submit (ustr ''I love this!'') True, DebounceFire,
      RequestDone (\<lambda>_. Resolved positive_body),
      Submit (ustr ''It is fine'') True, DebounceFire])"


section \<open>The audio encoder: properties\<close>

lemma sint16_id:
  "- 32768 \<le> k \<Longrightarrow> k \<le> 32767 \<Longrightarrow> sint (word_of_int k :: 16 word) = k"
  by (simp add: sint_sbintrunc' signed_take_bit_int_eq_self)

lemma trunc_real_bounds:
  assumes "- 1 \<le> s" "s \<le> 1"
  shows "- 32768 \<le> trunc_real (if s < 0 then s * 32768 else s * 32767)"
    and "trunc_real (if s < 0 then s * 32768 else s * 32767) \<le> 32767"
  using assms unfolding trunc_real_def
  by (auto simp: le_floor_iff le_ceiling_iff floor_le_iff ceiling_le_iff)

lemma clamp_sample_Fin: "clamp_sample (Fin x) = Fin (clamp_unit x)"
  by (simp add: clamp_sample_def clamp_unit_def)

lemma clamp_unit_bounds: "- 1 \<le> clamp_unit x" "clamp_unit x \<le> 1"
  by (simp_all add: clamp_unit_def)

lemma clamp_unit_idem: "clamp_unit (clamp_unit x) = clamp_unit x"
  by (simp add: clamp_unit_def)

lemma encode_Fin:
  "encode_sample (Fin x) =
     trunc_real (if clamp_unit x < 0 then clamp_unit x * 32768 else clamp_unit x * 32767)"
proof -
  have "encode_sample (Fin x) =
          ToInt16 (Fin (if clamp_unit x < 0 then clamp_unit x * 32768 else clamp_unit x * 32767))"
    by (simp add: encode_sample_def clamp_sample_Fin scale_sample_def)
  also have "\<dots> = sint (word_of_int
       (trunc_real (if clamp_unit x < 0 then clamp_unit x * 32768 else clamp_unit x * 32767))
         :: 16 word)"
    by simp
  also have "\<dots> =
       trunc_real (if clamp_unit x < 0 then clamp_unit x * 32768 else clamp_unit x * 32767)"
    by (rule sint16_id) (rule trunc_real_bounds[OF clamp_unit_bounds])+
  finally show ?thesis .
qed

text \<open>The loop fills the output from index \<open>i\<close> on and leaves what lies before it.\<close>

lemma convert_loop_eq:
  "i \<le> length buffer \<Longrightarrow> length out = length buffer \<Longrightarrow>
   convert_loop buffer i out = take i out @ map encode_sample (drop i buffer)"
proof (induction buffer i out rule: convert_loop.induct)
  case (1 buffer i out)
  show ?case
  proof (cases "i < length buffer")
    case True
    then have "convert_loop buffer i out =
        convert_loop buffer (i + 1) (out[i := encode_sample (buffer ! i)])"
      by (subst convert_loop.simps) simp
    also have "\<dots> = take (i + 1) (out[i := encode_sample (buffer ! i)])
                      @ map encode_sample (drop (i + 1) buffer)"
      using True 1 by simp
    also have "take (i + 1) (out[i := encode_sample (buffer ! i)])
                 = take i out @ [encode_sample (buffer ! i)]"
      using True 1(3) by (simp add: take_Suc_conv_app_nth)
    also have "(take i out @ [encode_sample (buffer ! i)])
                 @ map encode_sample (drop (i + 1) buffer)
                 = take i out @ map encode_sample (drop i buffer)"
      using True by (simp add: Cons_nth_drop_Suc [symmetric])
    finally show ?thesis .
  next
    case False
    with 1(2,3) show ?thesis by (subst convert_loop.simps) simp
  qed
qed

lemma stream_loop_eq_convert_loop: "stream_loop buffer i out = convert_loop buffer i out"
proof (induction buffer i out rule: convert_loop.induct)
  case (1 buffer i out)
  show ?case
  proof (cases "i < length buffer")
    case True
    have "stream_loop buffer i out =
            stream_loop buffer (i + 1) (out[i := encode_sample (buffer ! i)])"
      using True
      by (subst stream_loop.simps)
         (simp add: encode_sample_def clamp_sample_def scale_sample_def Let_def)
    also have "\<dots> = convert_loop buffer (i + 1) (out[i := encode_sample (buffer ! i)])"
      using True 1 by simp
    also have "\<dots> = convert_loop buffer i out"
      using True by (subst (2) convert_loop.simps) simp
    finally show ?thesis .
  next
    case False
    then show ?thesis
      by (subst stream_loop.simps, subst convert_loop.simps) simp
  qed
qed

lemma convertFloat32ToInt16_map:
  "convertFloat32ToInt16 (Float32Array buffer) = Inr (map encode_sample buffer)"
  by (simp add: convert_loop_eq)

lemma onaudioprocess_map: "onaudioprocess buffer = map encode_sample buffer"
  by (simp add: onaudioprocess_def stream_loop_eq_convert_loop convert_loop_eq)

text \<open>
  Claim C2. For every \<^verbatim>\<open>Float32Array\<close> the conversion returns, element by element, the
  encoding of the sample, both in \<^verbatim>\<open>convertFloat32ToInt16\<close> and in the loop of
  \<^verbatim>\<open>startAudioStreaming\<close>. The encoding of a finite sample clamps it to \<open>[-1, 1]\<close>
  first and then multiplies a negative clamped value by 32768 and a non-negative one
  by 32767 (the fractional part is dropped by the store into the \<^verbatim>\<open>Int16Array\<close>,
  which never wraps here). So 1.0 encodes to 32767, -1.0 to -32768, 0 to 0, and a sample
  outside \<open>[-1, 1]\<close>, the infinities included, encodes as its clamped value does. (A
  NaN sample, which no clamping changes, is stored as 0.)
\<close>

theorem float32_to_pcm16_clamps_then_scales:
  "convertFloat32ToInt16 (Float32Array buffer) = Inr (map encode_sample buffer)
   \<and> onaudioprocess buffer = map encode_sample buffer
   \<and> encode_sample (Fin x) =
        trunc_real (if clamp_unit x < 0 then clamp_unit x * 32768 else clamp_unit x * 32767)
   \<and> encode_sample (Fin 1) = 32767
   \<and> encode_sample (Fin (- 1)) = - 32768
   \<and> encode_sample (Fin 0) = 0
   \<and> encode_sample (Fin x) = encode_sample (Fin (clamp_unit x))
   \<and> encode_sample PosInf = encode_sample (Fin 1)
   \<and> encode_sample NegInf = encode_sample (Fin (- 1))
   \<and> encode_sample NaN = 0"
proof -
  have one: "encode_sample (Fin 1) = 32767"
    by (simp add: encode_Fin clamp_unit_def trunc_real_def)
  have mone: "encode_sample (Fin (- 1)) = - 32768"
    by (simp add: encode_Fin clamp_unit_def trunc_real_def)
  have zero: "encode_sample (Fin 0) = 0"
    by (simp add: encode_Fin clamp_unit_def trunc_real_def)
  have clamped: "encode_sample (Fin x) = encode_sample (Fin (clamp_unit x))"
    by (simp only: encode_Fin clamp_unit_idem)
  have pinf: "encode_sample PosInf = encode_sample (Fin 1)"
    by (simp add: encode_sample_def clamp_sample_def)
  have ninf: "encode_sample NegInf = encode_sample (Fin (- 1))"
    by (simp add: encode_sample_def clamp_sample_def)
  have nan: "encode_sample NaN = 0"
    by (simp add: encode_sample_def clamp_sample_def scale_sample_def)
  show ?thesis
    using convertFloat32ToInt16_map onaudioprocess_map encode_Fin one mone zero clamped pinf ninf
      nan
    by blast
qed

section \<open>Reconnection of the transcription connection\<close>

lemma delays_simps [simp]:
  "delays [] = []"
  "delays (SetTimeout d # es) = d # delays es"
  "delays (NewWebSocket # es) = delays es"
  "delays (ClearTimeout # es) = delays es"
  "delays (SocketClose c # es) = delays es"
  "delays (HttpPost t # es) = delays es"
  "delays (Abort # es) = delays es"
  "delays (es @ fs) = delays es @ delays fs"
  by (simp_all add: delays_def)

lemma connect_keeps_attempts:
  "reconnectAttempts (snd (connect a s)) = reconnectAttempts s"
  "delays (fst (connect a s)) = []"
  by (simp_all add: connect_def Let_def)

lemma onclose_abnormal:
  assumes "code \<noteq> 1000" "reconnectAttempts s < 3"
  shows "fst (onclose code s) = [SetTimeout (min (1000 * 2 ^ (reconnectAttempts s + 1)) 10000)]"
    and "reconnectAttempts (snd (onclose code s)) = reconnectAttempts s + 1"
  using assms by (simp_all add: onclose_def handleReconnect_def stopAudioStreaming_def Let_def)

lemma onclose_final:
  assumes "code = 1000 \<or> 3 \<le> reconnectAttempts s"
  shows "fst (onclose code s) = []"
    and "reconnectAttempts (snd (onclose code s)) = reconnectAttempts s"
  using assms by (auto simp add: onclose_def handleReconnect_def stopAudioStreaming_def Let_def)

lemma close_then_fire:
  "delays (fst (conn_run a s [WsClose c, TimerFire 0])) = delays (fst (onclose c s))"
  "reconnectAttempts (snd (conn_run a s [WsClose c, TimerFire 0])) = reconnectAttempts (snd (onclose c s))"
  by (simp_all add: split_beta Let_def connect_keeps_attempts)

lemma conn_run_append:
  "conn_run a s (es @ fs) =
     (let (o1, s1) = conn_run a s es; (o2, s2) = conn_run a s1 fs in (o1 @ o2, s2))"
  by (induction es arbitrary: s) (simp_all add: split_beta Let_def)

lemma closes_Cons: "closes_in_a_row (c # cs) = [WsClose c, TimerFire 0] @ closes_in_a_row cs"
  by (simp add: closes_in_a_row_def)

lemma closes_general:
  assumes "\<forall>c \<in> set codes. c \<noteq> 1000"
  shows "delays (fst (conn_run a s (closes_in_a_row codes)))
           = take (length codes) (map backoff [reconnectAttempts s + 1 ..< 4])
       \<and> reconnectAttempts (snd (conn_run a s (closes_in_a_row codes)))
           = (if 3 \<le> reconnectAttempts s then reconnectAttempts s
              else min (reconnectAttempts s + length codes) 3)"
  using assms
proof (induction codes arbitrary: s)
  case Nil
  then show ?case by (simp add: closes_in_a_row_def)
next
  case (Cons c cs)
  define r1 where "r1 = conn_run a s [WsClose c, TimerFire 0]"
  define r2 where "r2 = conn_run a (snd r1) (closes_in_a_row cs)"
  have c: "c \<noteq> 1000" and cs: "\<forall>c \<in> set cs. c \<noteq> 1000" using Cons.prems by simp_all
  have split: "conn_run a s (closes_in_a_row (c # cs)) = (fst r1 @ fst r2, snd r2)"
    unfolding closes_Cons conn_run_append r1_def r2_def by (simp only: split_beta Let_def)
  have IH: "delays (fst r2) = take (length cs) (map backoff [reconnectAttempts (snd r1) + 1 ..< 4])"
       "reconnectAttempts (snd r2) = (if 3 \<le> reconnectAttempts (snd r1) then reconnectAttempts (snd r1)
              else min (reconnectAttempts (snd r1) + length cs) 3)"
    using Cons.IH[OF cs, of "snd r1"] unfolding r2_def by blast+
  show ?case
  proof (cases "reconnectAttempts s < 3")
    case True
    have a1: "reconnectAttempts (snd r1) = reconnectAttempts s + 1"
      and d1: "delays (fst r1) = [backoff (reconnectAttempts s + 1)]"
      unfolding r1_def using onclose_abnormal[OF c True] by (simp_all only: close_then_fire backoff_def delays_simps)
    have up: "[reconnectAttempts s + 1 ..< 4] = (reconnectAttempts s + 1) # [reconnectAttempts s + 1 + 1 ..< 4]"
      using True by (simp add: upt_conv_Cons)
    show ?thesis
      unfolding split fst_conv snd_conv delays_simps IH a1 d1 using True by (subst up) auto
  next
    case False
    then have ge: "code = 1000 \<or> 3 \<le> reconnectAttempts s" for code by simp
    have a1: "reconnectAttempts (snd r1) = reconnectAttempts s"
      and d1: "delays (fst r1) = []"
      unfolding r1_def using onclose_final[OF ge] by (simp_all only: close_then_fire delays_simps)
    show ?thesis
      unfolding split fst_conv snd_conv delays_simps IH a1 d1 using False by simp
  qed
qed

text \<open>
  Claim C3. Starting with the attempt counter at 0, consecutive abnormal closes (any
  codes other than 1000), each followed by the firing of a live reconnect timer
  (the one it started, when no other is live), schedule the delays 2000 ms, 4000 ms
  and 8000 ms and nothing more: a run
  of \<open>n\<close> closes schedules the first \<open>n\<close> of these three, and the counter ends at
  \<open>min n 3\<close>. Each delay is \<open>min(1000 \<times> 2^attempt, 10000)\<close> for the counter as
  \<^verbatim>\<open>handleReconnect\<close> has just incremented it, and a close that finds the counter at 3
  or that carries the code 1000 schedules no reconnect.
\<close>

theorem reconnect_backoff_sequence:
  assumes "reconnectAttempts s = 0" and "list_all (\<lambda>c. c \<noteq> 1000) codes"
  shows "delays (fst (conn_run apiKey s (closes_in_a_row codes)))
           = take (length codes) [2000, 4000, 8000]
       \<and> reconnectAttempts (snd (conn_run apiKey s (closes_in_a_row codes)))
           = min (length codes) 3
       \<and> [2000, 4000, 8000] = map backoff [1, 2, 3]
       \<and> fst (onclose code t) =
           (if code \<noteq> 1000 \<and> reconnectAttempts t < 3
            then [SetTimeout (backoff (reconnectAttempts t + 1))] else [])"
proof -
  have codes: "\<forall>c \<in> set codes. c \<noteq> 1000"
    using assms(2) by (simp add: list_all_iff)
  have up: "map backoff [0 + 1 ..< 4] = [2000, 4000, 8000]"
    by (simp add: backoff_def upt_conv_Cons)
  have seq: "delays (fst (conn_run apiKey s (closes_in_a_row codes)))
           = take (length codes) [2000, 4000, 8000]"
    using closes_general[OF codes, of apiKey s] assms(1) up by simp
  have cnt: "reconnectAttempts (snd (conn_run apiKey s (closes_in_a_row codes)))
           = min (length codes) 3"
    using closes_general[OF codes, of apiKey s] assms(1) by simp
  have formula: "[2000, 4000, 8000] = map backoff [1, 2, 3]"
    by (simp add: backoff_def)
  have single: "fst (onclose code t) =
           (if code \<noteq> 1000 \<and> reconnectAttempts t < 3
            then [SetTimeout (backoff (reconnectAttempts t + 1))] else [])"
  proof (cases "code \<noteq> 1000 \<and> reconnectAttempts t < 3")
    case True
    then show ?thesis using onclose_abnormal(1)[of code t] by (simp add: backoff_def)
  next
    case False
    then have "code = 1000 \<or> 3 \<le> reconnectAttempts t" by auto
    from onclose_final(1)[OF this] False show ?thesis by simp
  qed
  from seq cnt formula single show ?thesis by blast
qed

theorem reconnect_backoff_sequence_witness:
  "reconnectAttempts conn_init = 0
   \<and> list_all (\<lambda>c. c \<noteq> 1000) [1006, 1006, 1006, 1006 :: nat]
   \<and> delays (fst (conn_run True conn_init (closes_in_a_row [1006, 1006, 1006, 1006])))
        = [2000, 4000, 8000]
   \<and> reconnectAttempts (snd (conn_run True conn_init (closes_in_a_row [1006, 1006, 1006, 1006])))
        = 3
   \<and> timers (snd (conn_run True conn_init (closes_in_a_row [1006, 1006, 1006, 1006]))) = []"
proof -
  have h1: "reconnectAttempts conn_init = 0" by (simp add: conn_init_def)
  have h2: "list_all (\<lambda>c. c \<noteq> 1000) [1006, 1006, 1006, 1006 :: nat]" by simp
  have t: "timers (snd (conn_run True conn_init (closes_in_a_row [1006, 1006, 1006, 1006]))) = []"
    by (simp add: conn_init_def closes_in_a_row_def onclose_def handleReconnect_def
        stopAudioStreaming_def connect_def Let_def)
  show ?thesis
    using reconnect_backoff_sequence[OF h1 h2, of True] h1 h2 t by simp
qed

section \<open>The sentiment coordinator: the retry loop\<close>

lemma posts_simps [simp]:
  "posts [] = []"
  "posts (HttpPost t # es) = t # posts es"
  "posts (SetTimeout d # es) = posts es"
  "posts (NewWebSocket # es) = posts es"
  "posts (ClearTimeout # es) = posts es"
  "posts (SocketClose c # es) = posts es"
  "posts (Abort # es) = posts es"
  "posts (es @ fs) = posts es @ posts fs"
  by (simp_all add: posts_def)

lemma retry_loop_done: "retry_loop text post k (Some b) = ([], Responded b)"
  by (subst retry_loop.simps) simp

lemma retry_loop_step:
  assumes "k < 3"
  shows "retry_loop text post k None =
     (case post k of
        Resolved b \<Rightarrow> ([HttpPost text], Responded b)
      | Rejected err \<Rightarrow>
          if is_abort err then ([HttpPost text], NoResponse)
          else if k < 2
          then (HttpPost text # SetTimeout (1000 * (k + 1)) # fst (retry_loop text post (k + 1) None),
                snd (retry_loop text post (k + 1) None))
          else ([HttpPost text], Thrown err))"
  using assms
  by (subst retry_loop.simps)
     (simp add: MAX_RETRIES_def RETRY_DELAY_def retry_loop_done Let_def split_beta
           split: attempt.splits)

lemma retry_loop_unrolled:
  "retry_loop text post 0 None =
     (case post 0 of
        Resolved b \<Rightarrow> ([HttpPost text], Responded b)
      | Rejected e0 \<Rightarrow>
          if is_abort e0 then ([HttpPost text], NoResponse)
          else (case post 1 of
             Resolved b \<Rightarrow> ([HttpPost text, SetTimeout 1000, HttpPost text], Responded b)
           | Rejected e1 \<Rightarrow>
               if is_abort e1 then ([HttpPost text, SetTimeout 1000, HttpPost text], NoResponse)
               else (case post 2 of
                  Resolved b \<Rightarrow>
                    ([HttpPost text, SetTimeout 1000, HttpPost text, SetTimeout 2000, HttpPost text],
                     Responded b)
                | Rejected e2 \<Rightarrow>
                    ([HttpPost text, SetTimeout 1000, HttpPost text, SetTimeout 2000, HttpPost text],
                     if is_abort e2 then NoResponse else Thrown e2))))"
proof -
  have r2: "retry_loop text post 2 None =
     (case post 2 of
        Resolved b \<Rightarrow> ([HttpPost text], Responded b)
      | Rejected e2 \<Rightarrow> ([HttpPost text], if is_abort e2 then NoResponse else Thrown e2))"
    by (simp add: retry_loop_step split: attempt.splits)
  have r1: "retry_loop text post 1 None =
     (case post 1 of
        Resolved b \<Rightarrow> ([HttpPost text], Responded b)
      | Rejected e1 \<Rightarrow>
          if is_abort e1 then ([HttpPost text], NoResponse)
          else (HttpPost text # SetTimeout 2000 # fst (retry_loop text post 2 None),
                snd (retry_loop text post 2 None)))"
    using retry_loop_step[of 1 "text" post] by (simp add: numeral_2_eq_2 split: attempt.splits)
  have r0: "retry_loop text post 0 None =
     (case post 0 of
        Resolved b \<Rightarrow> ([HttpPost text], Responded b)
      | Rejected e0 \<Rightarrow>
          if is_abort e0 then ([HttpPost text], NoResponse)
          else (HttpPost text # SetTimeout 1000 # fst (retry_loop text post 1 None),
                snd (retry_loop text post 1 None)))"
    using retry_loop_step[of 0 "text" post] by (simp split: attempt.splits)
  show ?thesis
    unfolding r0 r1 r2 by (simp split: attempt.splits)
qed

lemma all_less_3: "(\<forall>k<3. P k) = (P 0 \<and> P 1 \<and> P (2::nat))"
  by (auto simp: numeral_3_eq_3 numeral_2_eq_2 less_Suc_eq)

lemma all_less_2: "(\<forall>k<2. P k) = (P 0 \<and> P (1::nat))"
  by (auto simp: numeral_2_eq_2 less_Suc_eq)

lemma all_less_1: "(\<forall>k<1. P k) = P (0::nat)"
  by auto

lemma all_le_1: "(\<forall>k\<le>1. P k) = (P 0 \<and> P (1::nat))"
  by (auto simp: le_Suc_eq)

lemma all_le_0: "(\<forall>k\<le>0. P k) = P (0::nat)"
  by auto

text \<open>
  What the loop does with a failure, by the code's own test: a failure the test takes
  for an abort ends the execution at once, with no response and no further call; any
  other failure of the first or of the second call is followed by another call, and
  three such failures end with the third error thrown.
\<close>

lemma retry_loop_abort_and_transient:
  "(\<forall>k<3. (\<forall>j<k. transient (post j)) \<and> aborted (post k) \<longrightarrow>
          length (posts (fst (retry_loop text post 0 None))) = k + 1
          \<and> snd (retry_loop text post 0 None) = NoResponse)
   \<and> (\<forall>k<2. (\<forall>j\<le>k. transient (post j)) \<longrightarrow>
          k + 2 \<le> length (posts (fst (retry_loop text post 0 None))))
   \<and> ((\<forall>j<3. transient (post j)) \<longrightarrow>
          length (posts (fst (retry_loop text post 0 None))) = 3
          \<and> (\<exists>err. post 2 = Rejected err \<and> snd (retry_loop text post 0 None) = Thrown err))"
proof -
  let ?r = "retry_loop text post 0 None"
  have ab: "\<forall>k<3. (\<forall>j<k. transient (post j)) \<and> aborted (post k) \<longrightarrow>
          length (posts (fst ?r)) = k + 1 \<and> snd ?r = NoResponse"
    unfolding retry_loop_unrolled all_less_3 all_less_2 all_less_1
    by (simp add: transient_def aborted_def split: attempt.splits)
  have tr: "\<forall>k<2. (\<forall>j\<le>k. transient (post j)) \<longrightarrow> k + 2 \<le> length (posts (fst ?r))"
    unfolding retry_loop_unrolled all_less_2 all_le_1 all_le_0
    by (simp add: transient_def split: attempt.splits)
  have ex: "(\<forall>j<3. transient (post j)) \<longrightarrow>
          length (posts (fst ?r)) = 3 \<and> (\<exists>err. post 2 = Rejected err \<and> snd ?r = Thrown err)"
    unfolding retry_loop_unrolled all_less_3
    by (simp add: transient_def split: attempt.splits)
  show ?thesis
    apply (intro conjI)
    apply (fact ab)
    apply (fact tr)
    apply (fact ex)
    done
qed

lemma fail_then_timeout_trace:
  "transient (fail_then_timeout 0) \<and> aborted (fail_then_timeout 1)
   \<and> retry_loop (ustr ''I love this!'') fail_then_timeout 0 None =
       ([HttpPost (ustr ''I love this!''), SetTimeout 1000, HttpPost (ustr ''I love this!'')],
        NoResponse)"
  by (simp add: retry_loop_unrolled fail_then_timeout_def transient_def aborted_def
      is_abort_def network_error_def timeout_error_def ustr_def)

section \<open>The sentiment coordinator: the end of a request\<close>

lemma on_finally_keeps:
  "sentiment (snd (on_finally s)) = sentiment s"
  "keywords' (snd (on_finally s)) = keywords' s"
  "error (snd (on_finally s)) = error s"
  "lastProcessedText (snd (on_finally s)) = lastProcessedText s"
  "inFlight (snd (on_finally s)) = None"
  "processingLock (snd (on_finally s)) = False"
  "debounceTimer (snd (on_finally s)) = debounceTimer s"
  by (simp_all add: on_finally_def Let_def split: list.splits)

lemma request_done_inFlight:
  assumes "inFlight s = Some text"
  shows "snd (request_done s post) =
           snd (on_finally (on_outcome s text (snd (retry_loop text post 0 None))))"
  using assms by (simp add: request_done_def on_outcome_def split_beta Let_def)

lemma request_done_fields:
  assumes "inFlight s = Some text"
  shows "sentiment (snd (request_done s post)) =
           sentiment (on_outcome s text (snd (retry_loop text post 0 None)))"
    and "keywords' (snd (request_done s post)) =
           keywords' (on_outcome s text (snd (retry_loop text post 0 None)))"
    and "error (snd (request_done s post)) =
           error (on_outcome s text (snd (retry_loop text post 0 None)))"
    and "lastProcessedText (snd (request_done s post)) =
           lastProcessedText (on_outcome s text (snd (retry_loop text post 0 None)))"
  by (simp_all only: request_done_inFlight[OF assms] on_finally_keeps)

lemma on_response_fields:
  "error (on_response s text b) = error s"
  "inFlight (on_response s text b) = inFlight s"
  "processingLock (on_response s text b) = processingLock s"
  by (simp_all add: on_response_def Let_def split: body.splits option.splits)




lemma processText_inv:
  "inFlight (snd (processText s t f)) = inFlight s"
  "error (snd (processText s t f)) = error s"
  "processingLock (snd (processText s t f)) = processingLock s"
  by (simp_all add: processText_def)

lemma lock_inv_step: "lock_inv s \<Longrightarrow> lock_inv (snd (step s e))"
proof (cases e)
  case (Submit t f)
  then show "lock_inv s \<Longrightarrow> ?thesis" by (simp add: lock_inv_def processText_inv)
next
  case DebounceFire
  then show "lock_inv s \<Longrightarrow> ?thesis"
    by (auto simp add: lock_inv_def debounce_fire_def Let_def split: option.splits)
next
  case (RequestDone post)
  show "lock_inv s \<Longrightarrow> ?thesis"
  proof (cases "inFlight s")
    case None
    with RequestDone show "lock_inv s \<Longrightarrow> ?thesis" by (simp add: request_done_def)
  next
    case (Some a)
    with RequestDone show ?thesis
      by (simp add: lock_inv_def request_done_inFlight on_finally_keeps)
  qed
next
  case (SpacingFire k)
  then show "lock_inv s \<Longrightarrow> ?thesis" by (simp add: lock_inv_def processText_inv)
next
  case ClearData
  then show "lock_inv s \<Longrightarrow> ?thesis" by (simp add: lock_inv_def clearData_def)
qed

lemma lock_inv_run: "lock_inv s \<Longrightarrow> lock_inv (snd (run s evs))"
proof (induction evs arbitrary: s)
  case Nil
  then show ?case by simp
next
  case (Cons e evs)
  from Cons.IH[OF lock_inv_step[OF Cons.prems, of e]] show ?case
    by (simp add: split_beta Let_def)
qed

lemma lock_inv_reachable: "lock_inv (snd (run coord_init evs))"
  by (rule lock_inv_run) (simp add: lock_inv_def coord_init_def)

text \<open>The sample states, evaluated.\<close>

lemmas eval_defs =
  coord_init_def processText_def debounce_fire_def request_done_def on_outcome_def
  on_response_def on_finally_def trim_def is_white_space_def ustr_def
  MIN_TEXT_LENGTH_def DEBOUNCE_DELAY_def Let_def split_beta retry_loop_unrolled

lemma first_in_flight_eq:
  "first_in_flight = \<lparr>sentiment = None, keywords' = [], isProcessing = True, error = None,
     debounceTimer = None, abortController = True, lastProcessedText = [],
     requestQueue = [], processingLock = True, inFlight = Some (ustr ''I love this!''),
     spacingTimers = []\<rparr>"
  by (simp add: first_in_flight_def eval_defs)

lemma second_in_flight_eq:
  "second_in_flight = \<lparr>sentiment =
       Some \<lparr>score = 0.9, type = ustr ''positive'', intensity = ustr ''strong''\<rparr>,
     keywords' = [ustr ''love'', ustr ''amazing''], isProcessing = True, error = None,
     debounceTimer = None, abortController = True,
     lastProcessedText = ustr ''I love this!'',
     requestQueue = [], processingLock = True, inFlight = Some (ustr ''It is fine''),
     spacingTimers = []\<rparr>"
  by (simp add: second_in_flight_def positive_body_def eval_defs)


text \<open>
  Claim C8. The execution of one request makes at least one and at most three HTTP
  calls, all with the same text, and its trace is an initial part of: post, wait
  1000 ms, post, wait 2000 ms, post; so the wait after the \<open>n\<close>-th failed call is
  1000 ms \<open>\<times>\<close> \<open>n\<close>. The claim's last clause fails on the code: the test for an
  abort (\<^verbatim>\<open>err.name === 'AbortError' || err.code === 'ECONNABORTED'\<close>) does not
  recognise the error of a cancellation through the \<^verbatim>\<open>AbortController\<close>
  (\<^verbatim>\<open>CanceledError\<close>, \<^verbatim>\<open>ERR_CANCELED\<close>). A cancelled request is therefore retried as
  a transient failure is: three calls with both waits, the third error thrown, and
  its message put into the error slot of the hook.
\<close>

theorem retry_bounded_but_cancellation_retried:
  "1 \<le> length (posts (fst (retry_loop text post 0 None)))
   \<and> length (posts (fst (retry_loop text post 0 None))) \<le> MAX_RETRIES
   \<and> set (posts (fst (retry_loop text post 0 None))) = {text}
   \<and> fst (retry_loop text post 0 None) =
        take (2 * length (posts (fst (retry_loop text post 0 None))) - 1)
          [HttpPost text, SetTimeout (RETRY_DELAY * 1), HttpPost text,
           SetTimeout (RETRY_DELAY * 2), HttpPost text]
   \<and> is_abort canceled_error = False
   \<and> retry_loop text (\<lambda>_. Rejected canceled_error) 0 None =
        ([HttpPost text, SetTimeout 1000, HttpPost text, SetTimeout 2000, HttpPost text],
         Thrown canceled_error)
   \<and> error (snd (step first_in_flight (RequestDone (\<lambda>_. Rejected canceled_error))))
        = Some (ustr ''canceled'')"
proof -
  let ?r = "retry_loop text post 0 None"
  have n1: "1 \<le> length (posts (fst ?r))"
    unfolding retry_loop_unrolled by (simp split: attempt.splits)
  have n3: "length (posts (fst ?r)) \<le> MAX_RETRIES"
    unfolding retry_loop_unrolled by (simp add: MAX_RETRIES_def split: attempt.splits)
  have body: "set (posts (fst ?r)) = {text}"
    unfolding retry_loop_unrolled by (simp split: attempt.splits)
  have shape: "fst ?r = take (2 * length (posts (fst ?r)) - 1)
          [HttpPost text, SetTimeout (RETRY_DELAY * 1), HttpPost text,
           SetTimeout (RETRY_DELAY * 2), HttpPost text]"
    unfolding retry_loop_unrolled by (simp add: RETRY_DELAY_def split: attempt.splits)
  have na: "is_abort canceled_error = False"
    by (simp add: is_abort_def canceled_error_def ustr_def)
  have tr: "retry_loop t (\<lambda>_. Rejected canceled_error) 0 None =
        ([HttpPost t, SetTimeout 1000, HttpPost t, SetTimeout 2000, HttpPost t],
         Thrown canceled_error)" for t
    unfolding retry_loop_unrolled using na by simp
  have fl: "inFlight first_in_flight = Some (ustr ''I love this!'')"
    by (simp add: first_in_flight_eq)
  have m: "errorMessage canceled_error = ustr ''canceled''"
    by (simp add: errorMessage_def canceled_error_def ustr_def)
  have er: "error (snd (step first_in_flight (RequestDone (\<lambda>_. Rejected canceled_error))))
        = Some (ustr ''canceled'')"
    by (simp add: request_done_fields(3)[OF fl] tr on_outcome_def m)
  show ?thesis
    apply (intro conjI)
    apply (fact n1)
    apply (fact n3)
    apply (fact body)
    apply (fact shape)
    apply (fact na)
    apply (rule tr)
    apply (fact er)
    done
qed

text \<open>
  Claim C1. When the request ends with a response whose body carries a sentiment
  object: if a previous sentiment exists, the new score is
  \<open>0.3 \<times> previous + 0.7 \<times> incoming\<close> and type and intensity are those of the incoming
  object; if none exists, the incoming object becomes the sentiment as it is. This
  holds for all scores, those in \<open>[0, 1]\<close> among them; scores are reals here, the
  code computes the same expression in double precision.
\<close>

theorem smoothing_of_score:
  assumes "inFlight s = Some text"
      and "snd (retry_loop text post 0 None) = Responded (Truthy d)"
      and "sentiment_prop d = Some incoming"
  shows "(\<forall>prev. sentiment s = Some prev \<longrightarrow>
            sentiment (snd (step s (RequestDone post))) =
              Some \<lparr>score = 0.3 * score prev + 0.7 * score incoming,
                    type = type incoming, intensity = intensity incoming\<rparr>)
       \<and> (sentiment s = None \<longrightarrow>
            sentiment (snd (step s (RequestDone post))) = Some incoming)"
  using assms
  by (simp add: request_done_fields on_outcome_def on_response_def Let_def
           split: option.splits)

theorem smoothing_of_score_witness:
  "inFlight second_in_flight = Some (ustr ''It is fine'')
   \<and> sentiment second_in_flight =
        Some \<lparr>score = 0.9, type = ustr ''positive'', intensity = ustr ''strong''\<rparr>
   \<and> sentiment (snd (step second_in_flight (RequestDone (\<lambda>_. Resolved neutral_body)))) =
        Some \<lparr>score = 0.62, type = ustr ''neutral'', intensity = ustr ''moderate''\<rparr>
   \<and> sentiment first_in_flight = None
   \<and> sentiment (snd (step first_in_flight (RequestDone (\<lambda>_. Resolved positive_body)))) =
        Some \<lparr>score = 0.9, type = ustr ''positive'', intensity = ustr ''strong''\<rparr>"
proof -
  let ?n = "\<lparr>score = 0.5, type = ustr ''neutral'', intensity = ustr ''moderate''\<rparr>"
  let ?p = "\<lparr>score = 0.9, type = ustr ''positive'', intensity = ustr ''strong''\<rparr>"
  have a1: "inFlight second_in_flight = Some (ustr ''It is fine'')"
    by (simp add: second_in_flight_eq)
  have a2: "snd (retry_loop (ustr ''It is fine'') (\<lambda>_. Resolved neutral_body) 0 None) =
      Responded (Truthy \<lparr>sentiment_prop = Some ?n, keywords_prop = Some []\<rparr>)"
    by (simp add: retry_loop_unrolled neutral_body_def)
  have a3: "sentiment_prop \<lparr>sentiment_prop = Some ?n, keywords_prop = Some []\<rparr> = Some ?n"
    by simp
  have a4: "sentiment second_in_flight = Some ?p"
    by (simp add: second_in_flight_eq)
  have b1: "inFlight first_in_flight = Some (ustr ''I love this!'')"
    by (simp add: first_in_flight_eq)
  have b2: "snd (retry_loop (ustr ''I love this!'') (\<lambda>_. Resolved positive_body) 0 None) =
      Responded (Truthy \<lparr>sentiment_prop = Some ?p,
                         keywords_prop = Some [ustr ''love'', ustr ''amazing'']\<rparr>)"
    by (simp add: retry_loop_unrolled positive_body_def)
  have b3: "sentiment_prop \<lparr>sentiment_prop = Some ?p,
                         keywords_prop = Some [ustr ''love'', ustr ''amazing'']\<rparr> = Some ?p"
    by simp
  have b4: "sentiment first_in_flight = None"
    by (simp add: first_in_flight_eq)
  from smoothing_of_score[OF a1 a2 a3] a4
  have c1: "sentiment (snd (step second_in_flight (RequestDone (\<lambda>_. Resolved neutral_body)))) =
        Some \<lparr>score = 0.62, type = ustr ''neutral'', intensity = ustr ''moderate''\<rparr>"
    by simp
  from smoothing_of_score[OF b1 b2 b3] b4
  have c2: "sentiment (snd (step first_in_flight (RequestDone (\<lambda>_. Resolved positive_body)))) =
        Some ?p"
    by simp
  from a1 a4 c1 b4 c2 show ?thesis by simp
qed

text \<open>
  Claim C5, as amended. In every state the hook can reach, when the request in flight ends
  with a response whose body has no sentiment object (a falsy body, \<^verbatim>\<open>{}\<close>, or any body
  whose \<^verbatim>\<open>sentiment\<close> is not an object), the sentiment is left as it was and no error
  is surfaced: the error slot is empty afterwards. The keywords are left as they were
  when the body has no keywords array, and are replaced by the array when it has one.
\<close>

theorem response_without_sentiment:
  assumes "s = snd (run coord_init evs)" and "inFlight s = Some text"
      and "snd (retry_loop text post 0 None) = Responded b"
      and "b = Falsy \<or> (\<exists>d. b = Truthy d \<and> sentiment_prop d = None)"
  shows "sentiment (snd (step s (RequestDone post))) = sentiment s
       \<and> error (snd (step s (RequestDone post))) = None
       \<and> keywords' (snd (step s (RequestDone post))) =
           (case b of
              Falsy \<Rightarrow> keywords' s
            | Truthy d \<Rightarrow> (case keywords_prop d of None \<Rightarrow> keywords' s | Some ks \<Rightarrow> ks))"
proof -
  from lock_inv_reachable[of evs] assms(1,2) have e: "error s = None"
    by (simp add: lock_inv_def)
  from assms(4) show ?thesis
    using assms(2,3) e
    by (auto simp add: request_done_fields on_outcome_def on_response_def Let_def
             split: option.splits)
qed

theorem response_without_sentiment_witness:
  "inFlight second_in_flight = Some (ustr ''It is fine'')
   \<and> sentiment (snd (step second_in_flight (RequestDone (\<lambda>_. Resolved keywords_only_body))))
        = sentiment second_in_flight
   \<and> error (snd (step second_in_flight (RequestDone (\<lambda>_. Resolved keywords_only_body)))) = None
   \<and> keywords' (snd (step second_in_flight (RequestDone (\<lambda>_. Resolved keywords_only_body))))
        = [ustr ''late'']"
proof -
  let ?d = "\<lparr>sentiment_prop = None, keywords_prop = Some [ustr ''late'']\<rparr>"
  have h1: "inFlight second_in_flight = Some (ustr ''It is fine'')"
    by (simp add: second_in_flight_eq)
  have h2: "snd (retry_loop (ustr ''It is fine'') (\<lambda>_. Resolved keywords_only_body) 0 None) =
      Responded (Truthy ?d)"
    by (simp add: retry_loop_unrolled keywords_only_body_def)
  have h3: "Truthy ?d = Falsy \<or> (\<exists>d. Truthy ?d = Truthy d \<and> sentiment_prop d = None)"
    by simp
  from response_without_sentiment[OF second_in_flight_def h1 h2 h3] h1
  show ?thesis by simp
qed

text \<open>
  Against claim C5 as stated: with the second request in flight, the body \<^verbatim>\<open>{}\<close> and
  the body \<^verbatim>\<open>{keywords: ["late"]}\<close> both leave the error slot empty, and the second
  one changes the keywords.
\<close>

theorem response_without_sentiment_counterexample:
  "error (snd (step second_in_flight (RequestDone (\<lambda>_. Resolved empty_object_body)))) = None
   \<and> error (snd (step second_in_flight (RequestDone (\<lambda>_. Resolved keywords_only_body)))) = None
   \<and> keywords' (snd (step second_in_flight (RequestDone (\<lambda>_. Resolved keywords_only_body))))
        \<noteq> keywords' second_in_flight"
  by (simp add: second_in_flight_eq empty_object_body_def keywords_only_body_def eval_defs)

lemma keywords_effect_texts:
  "kws \<noteq> [] \<Longrightarrow>
   map kw_text (keywords_effect now kws currentKeywords) =
     drop (length currentKeywords + length kws - 20) (map kw_text currentKeywords @ kws)"
proof -
  have c: "kw_text \<circ> (\<lambda>(index, keyword).
            \<lparr>kw_text = keyword, kw_id = now index + index, kw_delay = index * 150\<rparr>) = snd"
    by (rule ext) (simp add: split_beta)
  have m: "map kw_text (map (\<lambda>(index, keyword).
            \<lparr>kw_text = keyword, kw_id = now index + index, kw_delay = index * 150\<rparr>)
          (enumerate 0 kws)) = kws"
    by (simp only: map_map c map_snd_enumerate)
  let ?new = "map (\<lambda>(index, keyword).
            \<lparr>kw_text = keyword, kw_id = now index + index, kw_delay = index * 150\<rparr>)
          (enumerate 0 kws)"
  assume "kws \<noteq> []"
  then have "keywords_effect now kws currentKeywords =
      drop (length (currentKeywords @ ?new) - 20) (currentKeywords @ ?new)"
    by (simp add: keywords_effect_def Let_def)
  then have "map kw_text (keywords_effect now kws currentKeywords) =
      drop (length (currentKeywords @ ?new) - 20) (map kw_text (currentKeywords @ ?new))"
    by (simp only: drop_map)
  also have "map kw_text (currentKeywords @ ?new) = map kw_text currentKeywords @ kws"
    by (simp only: map_append m)
  also have "length (currentKeywords @ ?new) = length currentKeywords + length kws"
    by simp
  finally show ?thesis .
qed

text \<open>
  Claim C6, as amended. When the request ends with a response with a truthy body, the
  keyword state of the hook is replaced by the body's \<^verbatim>\<open>keywords\<close> whenever that is an
  array, the empty array included (the state is then empty); it is left as it was
  only when the field is absent or not an array. The application appends a batch to
  its keyword log only for a non-empty array (keeping the last 20 items): on the
  empty one its effect leaves the log as it was.
\<close>

theorem keywords_replaced_by_any_array:
  assumes "inFlight s = Some text"
      and "snd (retry_loop text post 0 None) = Responded (Truthy d)"
  shows "(\<forall>ks. keywords_prop d = Some ks \<longrightarrow> keywords' (snd (step s (RequestDone post))) = ks)
       \<and> (keywords_prop d = None \<longrightarrow>
            keywords' (snd (step s (RequestDone post))) = keywords' s)
       \<and> keywords_effect now [] currentKeywords = currentKeywords
       \<and> (kws \<noteq> [] \<longrightarrow>
            map kw_text (keywords_effect now kws currentKeywords) =
              drop (length currentKeywords + length kws - 20)
                (map kw_text currentKeywords @ kws))"
proof -
  have hook: "(\<forall>ks. keywords_prop d = Some ks \<longrightarrow>
                keywords' (snd (step s (RequestDone post))) = ks)
       \<and> (keywords_prop d = None \<longrightarrow>
            keywords' (snd (step s (RequestDone post))) = keywords' s)"
    using assms
    by (simp add: request_done_fields on_outcome_def on_response_def Let_def
             split: option.splits)
  have skip: "keywords_effect now [] currentKeywords = currentKeywords"
    by (simp add: keywords_effect_def)
  from hook skip keywords_effect_texts[of kws now currentKeywords] show ?thesis
    by simp
qed

theorem keywords_replaced_by_any_array_witness:
  "inFlight second_in_flight = Some (ustr ''It is fine'')
   \<and> keywords' second_in_flight = [ustr ''love'', ustr ''amazing'']
   \<and> keywords' (snd (step second_in_flight (RequestDone (\<lambda>_. Resolved neutral_body)))) = []
   \<and> keywords' (snd (step second_in_flight (RequestDone (\<lambda>_. Resolved empty_object_body))))
        = [ustr ''love'', ustr ''amazing'']"
proof -
  let ?n = "\<lparr>sentiment_prop =
       Some \<lparr>score = 0.5, type = ustr ''neutral'', intensity = ustr ''moderate''\<rparr>,
     keywords_prop = Some []\<rparr>"
  let ?e = "\<lparr>sentiment_prop = None, keywords_prop = None\<rparr>"
  have h1: "inFlight second_in_flight = Some (ustr ''It is fine'')"
    by (simp add: second_in_flight_eq)
  have k: "keywords' second_in_flight = [ustr ''love'', ustr ''amazing'']"
    by (simp add: second_in_flight_eq)
  have h2: "snd (retry_loop (ustr ''It is fine'') (\<lambda>_. Resolved neutral_body) 0 None) =
      Responded (Truthy ?n)"
    by (simp add: retry_loop_unrolled neutral_body_def)
  have h3: "snd (retry_loop (ustr ''It is fine'') (\<lambda>_. Resolved empty_object_body) 0 None) =
      Responded (Truthy ?e)"
    by (simp add: retry_loop_unrolled empty_object_body_def)
  from keywords_replaced_by_any_array[OF h1 h2] keywords_replaced_by_any_array[OF h1 h3] h1 k
  show ?thesis by simp
qed

text \<open>
  Against claim C6 as stated: with the keywords \<^verbatim>\<open>["love", "amazing"]\<close> in the state, a
  response whose \<^verbatim>\<open>keywords\<close> is \<^verbatim>\<open>[]\<close> changes the keyword state.
\<close>

theorem empty_keywords_array_counterexample:
  "keywords' (snd (step second_in_flight (RequestDone (\<lambda>_. Resolved neutral_body))))
     \<noteq> keywords' second_in_flight"
  by (simp add: second_in_flight_eq neutral_body_def eval_defs)




text \<open>
  Claim C10, as amended. When the request ends with a response whose body is truthy,
  with or without a sentiment object, the text of the request becomes the last
  processed text, and a call of \<^verbatim>\<open>processText\<close> with that same text is then ignored
  (no effect, no change of state). When the response body is falsy, or the request
  ends by an abort or by throwing, the last processed text is left as it was.
\<close>

theorem dedup_key_recorded_on_truthy_body:
  assumes "inFlight s = Some text"
  shows "(\<forall>d. snd (retry_loop text post 0 None) = Responded (Truthy d) \<longrightarrow>
            lastProcessedText (snd (step s (RequestDone post))) = text
          \<and> step (snd (step s (RequestDone post))) (Submit text isFinal)
              = ([], snd (step s (RequestDone post))))
       \<and> (snd (retry_loop text post 0 None) = Responded Falsy
          \<or> snd (retry_loop text post 0 None) = NoResponse
          \<or> (\<exists>err. snd (retry_loop text post 0 None) = Thrown err) \<longrightarrow>
            lastProcessedText (snd (step s (RequestDone post))) = lastProcessedText s)"
proof -
  have a: "lastProcessedText (snd (step s (RequestDone post))) = text"
    if "snd (retry_loop text post 0 None) = Responded (Truthy d)" for d
    using assms that
    by (simp add: request_done_fields on_outcome_def on_response_def Let_def split: option.splits)
  have b: "step s' (Submit text isFinal) = ([], s')" if "lastProcessedText s' = text" for s'
    using that by (simp add: processText_def)
  have c: "lastProcessedText (snd (step s (RequestDone post))) = lastProcessedText s"
    if "snd (retry_loop text post 0 None) = Responded Falsy
          \<or> snd (retry_loop text post 0 None) = NoResponse
          \<or> (\<exists>err. snd (retry_loop text post 0 None) = Thrown err)"
    using assms that
    by (auto simp add: request_done_fields on_outcome_def on_response_def)
  from a b c show ?thesis by blast
qed

theorem dedup_key_recorded_on_truthy_body_witness:
  "inFlight first_in_flight = Some (ustr ''I love this!'')
   \<and> lastProcessedText (snd (step first_in_flight (RequestDone (\<lambda>_. Resolved empty_object_body))))
        = ustr ''I love this!''
   \<and> step (snd (step first_in_flight (RequestDone (\<lambda>_. Resolved empty_object_body))))
          (Submit (ustr ''I love this!'') True)
        = ([], snd (step first_in_flight (RequestDone (\<lambda>_. Resolved empty_object_body))))
   \<and> lastProcessedText (snd (step first_in_flight (RequestDone (\<lambda>_. Rejected timeout_error))))
        = lastProcessedText first_in_flight"
proof -
  have h1: "inFlight first_in_flight = Some (ustr ''I love this!'')"
    by (simp add: first_in_flight_eq)
  have o1: "snd (retry_loop (ustr ''I love this!'') (\<lambda>_. Resolved empty_object_body) 0 None)
      = Responded (Truthy \<lparr>sentiment_prop = None, keywords_prop = None\<rparr>)"
    by (simp add: retry_loop_unrolled empty_object_body_def)
  have o2: "snd (retry_loop (ustr ''I love this!'') (\<lambda>_. Rejected timeout_error) 0 None)
      = NoResponse"
    by (simp add: retry_loop_unrolled is_abort_def timeout_error_def)
  from dedup_key_recorded_on_truthy_body[OF h1, of "\<lambda>_. Resolved empty_object_body" True] o1
       dedup_key_recorded_on_truthy_body[OF h1, of "\<lambda>_. Rejected timeout_error" True] o2 h1
  show ?thesis by simp
qed

text \<open>
  Against claim C10 as stated: the first request ends with a response whose body is
  falsy (\<^verbatim>\<open>null\<close>, \<^verbatim>\<open>false\<close>, \<^verbatim>\<open>0\<close> or empty). Its text is not recorded, and the same
  text submitted again starts a debounce timer.
\<close>

theorem falsy_body_not_recorded_counterexample:
  "lastProcessedText (snd (step first_in_flight (RequestDone (\<lambda>_. Resolved Falsy))))
     \<noteq> ustr ''I love this!''
   \<and> debounceTimer (snd (step (snd (step first_in_flight (RequestDone (\<lambda>_. Resolved Falsy))))
        (Submit (ustr ''I love this!'') True))) = Some (ustr ''I love this!'')"
  by (simp add: first_in_flight_eq eval_defs)

section \<open>The sentiment coordinator: debounce and queue\<close>















end
